theory Spec2Isabelle
  imports Main "HOL-Library.Word"
begin

unbundle bit_operations_syntax

section \<open>Inventory installation of the task runner\<close>

text \<open>
  The development embeds the two methods of the task runner that prepare the
  inventory of a run,
  \<^verbatim>\<open>func (t *task) installInventory() error\<close> and
  \<^verbatim>\<open>func (t *task) installStaticInventory() error\<close>,
  together with the library calls they make: \<^verbatim>\<open>strconv.Itoa\<close> and
  \<^verbatim>\<open>ioutil.WriteFile\<close>. Go strings are byte sequences and HOL characters are
  bytes, so a Go \<^verbatim>\<open>string\<close> and the \<^verbatim>\<open>[]byte\<close> made from it are both a
  \<^typ>\<open>string\<close> here and the conversion \<^verbatim>\<open>[]byte(s)\<close> is the identity.
\<close>

subsection \<open>Decimal rendering: \<^verbatim>\<open>strconv.Itoa\<close>\<close>

definition digit_char :: "nat \<Rightarrow> char" where
  "digit_char d = char_of (48 + d)"

function udigits :: "nat \<Rightarrow> string" where
  "udigits n = (if n < 10 then [digit_char n]
                else udigits (n div 10) @ [digit_char (n mod 10)])"
  by pat_completeness auto
termination
  by (relation "measure (\<lambda>n. n)") auto

declare udigits.simps [simp del]

text \<open>
  \<^verbatim>\<open>strconv.Itoa(i)\<close>: the shortest decimal numeral of \<open>i\<close>, with a leading minus
  sign for a negative number. A Go \<^verbatim>\<open>int\<close> is modelled by \<^typ>\<open>int\<close>: no
  arithmetic is done on the task id, so no overflow can occur.
\<close>

definition Itoa :: "int \<Rightarrow> string" where
  "Itoa i = (if i < 0 then CHR ''-'' # udigits (nat (- i)) else udigits (nat i))"

subsection \<open>Records of the runner\<close>

text \<open>
  \<^verbatim>\<open>util.Config\<close> (only \<^verbatim>\<open>TmpPath\<close> is read), \<^verbatim>\<open>db.Task\<close> (only \<^verbatim>\<open>ID\<close>
  is read), \<^verbatim>\<open>db.Inventory\<close> and the runner's \<^verbatim>\<open>task\<close>. The type of the
  access key record is left open as \<open>'k\<close>: the methods only pass it on.
\<close>

record Config =
  TmpPath :: string

record db_Task =
  ID :: int

record 'k db_Inventory =
  SSHKeyID :: "int option"
  SSHKey :: 'k
  Type :: string
  Inventory :: string

record 'k task =
  task :: db_Task
  inventory :: "'k db_Inventory"

subsection \<open>Files, permissions and \<^verbatim>\<open>ioutil.WriteFile\<close>\<close>

type_synonym path = string
type_synonym FileMode = "32 word"

text \<open>Permission bits are written in octal, as in the source: \<open>octal [0,6,6,4]\<close>.\<close>

definition octal :: "nat list \<Rightarrow> FileMode" where
  "octal ds = of_nat (foldl (\<lambda>a d. 8 * a + d) 0 ds)"

record File =
  content :: string
  mode :: FileMode

text \<open>
  The part of the world the two methods touch: the file table, the process umask, the
  paths that cannot be opened for writing (a missing or unwritable directory), the
  number of bytes a write to a path accepts where that is limited (a full disk), and
  the lines logged for the task by \<^verbatim>\<open>t.log\<close>.
\<close>

record world =
  files :: "path \<rightharpoonup> File"
  umask :: FileMode
  unwritable :: "path set"
  capacity :: "path \<rightharpoonup> nat"
  logged :: "string list"

datatype error = PathError string path | ErrShortWrite

text \<open>
  \<^verbatim>\<open>os.OpenFile(name, O_WRONLY|O_CREATE|O_TRUNC, perm)\<close>: an existing file is
  truncated and keeps its mode; a new file is created empty with mode
  \<open>perm AND NOT umask\<close>.
\<close>

definition OpenFile :: "path \<Rightarrow> FileMode \<Rightarrow> world \<Rightarrow> error option \<times> world" where
  "OpenFile name perm w =
     (if name \<in> unwritable w then (Some (PathError ''open'' name), w)
      else (None, w\<lparr>files := (files w)(name \<mapsto>
              (case files w name of
                 Some f \<Rightarrow> f\<lparr>content := []\<rparr>
               | None \<Rightarrow> \<lparr>content = [], mode = perm AND NOT (umask w)\<rparr>))\<rparr>))"

text \<open>
  The number of bytes of \<open>data\<close> that a write to \<open>name\<close> accepts: all of them
  unless a capacity is set for the path.
\<close>

definition accepted :: "world \<Rightarrow> path \<Rightarrow> string \<Rightarrow> nat" where
  "accepted w name data =
     (case capacity w name of None \<Rightarrow> length data | Some c \<Rightarrow> min c (length data))"

text \<open>
  \<^verbatim>\<open>f.Write(data)\<close> on the file just opened (\<open>OpenFile\<close> has put it in the
  file table): the accepted bytes are appended to the truncated content; the call
  returns their number, and an error when some bytes were not accepted.
\<close>

definition Write :: "path \<Rightarrow> string \<Rightarrow> world \<Rightarrow> (nat \<times> error option) \<times> world" where
  "Write name data w =
     (let n = accepted w name data;
          err = (if n < length data then Some (PathError ''write'' name) else None)
      in ((n, err), w\<lparr>files := (files w)(name \<mapsto>
              (case files w name of
                 Some f \<Rightarrow> f\<lparr>content := content f @ take n data\<rparr>
               | None \<Rightarrow> \<lparr>content = take n data, mode = 0\<rparr>))\<rparr>))"

text \<open>
  \<^verbatim>\<open>ioutil.WriteFile(filename, data, perm)\<close>: open, write, report a short write,
  close. Closing does not fail in this model.
\<close>

definition WriteFile :: "path \<Rightarrow> string \<Rightarrow> FileMode \<Rightarrow> world \<Rightarrow> error option \<times> world" where
  "WriteFile filename data perm w =
     (case OpenFile filename perm w of
        (Some err, w') \<Rightarrow> (Some err, w')
      | (None, w') \<Rightarrow>
          (case Write filename data w' of
             ((n, err), w'') \<Rightarrow>
               (if err = None \<and> n < length data then (Some ErrShortWrite, w'')
                else (err, w''))))"

subsection \<open>The runner's methods\<close>

text \<open>\<^verbatim>\<open>t.log(msg)\<close> appends a line to the lines logged for the task.\<close>

definition log :: "string \<Rightarrow> world \<Rightarrow> world" where
  "log msg w = w\<lparr>logged := logged w @ [msg]\<rparr>"

definition inventoryPath :: "Config \<Rightarrow> 'k task \<Rightarrow> path" where
  "inventoryPath cfg t = TmpPath cfg @ ''/inventory_'' @ Itoa (ID (task t))"

definition installStaticInventory :: "Config \<Rightarrow> 'k task \<Rightarrow> world \<Rightarrow> error option \<times> world" where
  "installStaticInventory cfg t w =
     WriteFile (TmpPath cfg @ ''/inventory_'' @ Itoa (ID (task t)))
               (Inventory (inventory t)) (octal [0,6,6,4])
               (log ''installing static inventory'' w)"

text \<open>
  \<^verbatim>\<open>t.installKey\<close> is defined elsewhere in the runner; it is a parameter here, a
  function of the task, the key record and the world.
\<close>

definition installInventory ::
  "('k task \<Rightarrow> 'k \<Rightarrow> world \<Rightarrow> error option \<times> world) \<Rightarrow>
   Config \<Rightarrow> 'k task \<Rightarrow> world \<Rightarrow> error option \<times> world" where
  "installInventory installKey cfg t w =
     (case (if SSHKeyID (inventory t) \<noteq> None
            then installKey t (SSHKey (inventory t)) w
            else (None, w)) of
        (Some err, w') \<Rightarrow> (Some err, w')
      | (None, w') \<Rightarrow>
          (if Type (inventory t) = ''static'' then installStaticInventory cfg t w'
           else (None, w')))"

subsection \<open>Properties of files used in the statements\<close>

text \<open>
  A path is restrictive when the file there, if any, has none of the group or other
  read and write bits (octal 066); it is executable when a file is there with some
  execute bit (octal 111).
\<close>

definition restrictive :: "world \<Rightarrow> path \<Rightarrow> bool" where
  "restrictive w p =
     (case files w p of None \<Rightarrow> True | Some f \<Rightarrow> mode f AND octal [0,0,6,6] = 0)"

definition executableAt :: "world \<Rightarrow> path \<Rightarrow> bool" where
  "executableAt w p =
     (case files w p of None \<Rightarrow> False | Some f \<Rightarrow> mode f AND octal [0,1,1,1] \<noteq> 0)"


subsection \<open>Concrete inputs for the closed examples\<close>

text \<open>
  An instance of the \<open>installKey\<close> parameter: it writes the key bytes to a per-task
  key file with mode 0600 and fails when that file cannot be written. The theorems
  below hold for every \<open>installKey\<close>; this one only instantiates them.
\<close>

definition exampleInstallKey :: "Config \<Rightarrow> string task \<Rightarrow> string \<Rightarrow> world \<Rightarrow> error option \<times> world" where
  "exampleInstallKey cfg t key w =
     WriteFile (TmpPath cfg @ ''/key_'' @ Itoa (ID (task t))) key (octal [0,6,0,0]) w"

definition exampleConfig :: Config where
  "exampleConfig = \<lparr>TmpPath = ''/tmp''\<rparr>"

definition exampleTask :: "int \<Rightarrow> int option \<Rightarrow> string \<Rightarrow> string \<Rightarrow> string task" where
  "exampleTask i keyId kind text =
     \<lparr>task = \<lparr>ID = i\<rparr>,
      inventory = \<lparr>SSHKeyID = keyId, SSHKey = ''secret'', Type = kind, Inventory = text\<rparr>\<rparr>"

definition exampleWorld :: "(path \<rightharpoonup> File) \<Rightarrow> path set \<Rightarrow> world" where
  "exampleWorld fs locked =
     \<lparr>files = fs, umask = octal [0,0,2,2], unwritable = locked, capacity = Map.empty,
      logged = []\<rparr>"

section \<open>Task status\<close>







section \<open>Lemmas\<close>

subsection \<open>Decimal numerals\<close>








subsection \<open>What \<open>WriteFile\<close> returns and leaves behind\<close>

lemma WriteFile_unwritable:
  "p \<in> unwritable w \<Longrightarrow> WriteFile p d perm w = (Some (PathError ''open'' p), w)"
  by (simp add: WriteFile_def OpenFile_def)

lemma WriteFile_fst:
  "fst (WriteFile p d perm w) =
     (if p \<in> unwritable w then Some (PathError ''open'' p)
      else if accepted w p d < length d then Some (PathError ''write'' p) else None)"
  by (simp add: WriteFile_def OpenFile_def Write_def accepted_def Let_def split: option.splits)

lemma WriteFile_snd:
  "p \<notin> unwritable w \<Longrightarrow>
   snd (WriteFile p d perm w) =
     w\<lparr>files := (files w)(p \<mapsto>
         (case files w p of
            Some f \<Rightarrow> f\<lparr>content := take (accepted w p d) d\<rparr>
          | None \<Rightarrow> \<lparr>content = take (accepted w p d) d, mode = perm AND NOT (umask w)\<rparr>))\<rparr>"
  by (simp add: WriteFile_def OpenFile_def Write_def accepted_def Let_def split: option.splits)

lemma WriteFile_other:
  "q \<noteq> p \<Longrightarrow> files (snd (WriteFile p d perm w)) q = files w q"
  by (cases "p \<in> unwritable w") (simp_all add: WriteFile_unwritable WriteFile_snd)

lemma WriteFile_frame:
  "umask (snd (WriteFile p d perm w)) = umask w"
  "unwritable (snd (WriteFile p d perm w)) = unwritable w"
  "capacity (snd (WriteFile p d perm w)) = capacity w"
  "logged (snd (WriteFile p d perm w)) = logged w"
  by (cases "p \<in> unwritable w"; simp add: WriteFile_unwritable WriteFile_snd)+

subsection \<open>The log and the static inventory\<close>

lemma Itoa_examples: "Itoa 1234 = ''1234''" "Itoa 0 = ''0''" "Itoa (- 12) = ''-12''"
  by code_simp+

lemma log_fields:
  "files (log m w) = files w"
  "umask (log m w) = umask w"
  "unwritable (log m w) = unwritable w"
  "capacity (log m w) = capacity w"
  "logged (log m w) = logged w @ [m]"
  by (simp_all add: log_def)

lemma accepted_log: "accepted (log m w) p d = accepted w p d"
  by (simp add: accepted_def log_fields)

lemma accepted_le: "accepted w p d \<le> length d"
  by (simp add: accepted_def split: option.splits)

lemma installStaticInventory_eq:
  "installStaticInventory cfg t w =
     WriteFile (inventoryPath cfg t) (Inventory (inventory t)) (octal [0,6,6,4])
       (log ''installing static inventory'' w)"
  by (simp add: installStaticInventory_def inventoryPath_def)

lemma installStaticInventory_fst:
  "fst (installStaticInventory cfg t w) =
     (if inventoryPath cfg t \<in> unwritable w
      then Some (PathError ''open'' (inventoryPath cfg t))
      else if accepted w (inventoryPath cfg t) (Inventory (inventory t))
                < length (Inventory (inventory t))
           then Some (PathError ''write'' (inventoryPath cfg t)) else None)"
  unfolding installStaticInventory_eq WriteFile_fst log_fields accepted_log ..

lemma installStaticInventory_files:
  "files (snd (installStaticInventory cfg t w)) =
     (if inventoryPath cfg t \<in> unwritable w then files w
      else (files w)(inventoryPath cfg t \<mapsto>
         (case files w (inventoryPath cfg t) of
            Some f \<Rightarrow>
              f\<lparr>content := take (accepted w (inventoryPath cfg t) (Inventory (inventory t)))
                              (Inventory (inventory t))\<rparr>
          | None \<Rightarrow>
              \<lparr>content = take (accepted w (inventoryPath cfg t) (Inventory (inventory t)))
                             (Inventory (inventory t)),
               mode = octal [0,6,6,4] AND NOT (umask w)\<rparr>)))"
proof (cases "inventoryPath cfg t \<in> unwritable w")
  case True
  then show ?thesis
    by (simp add: installStaticInventory_eq WriteFile_unwritable log_fields)
next
  case False
  then show ?thesis
    by (simp add: installStaticInventory_eq WriteFile_snd log_fields accepted_log
        cong: option.case_cong)
qed

lemma installStaticInventory_frame:
  "umask (snd (installStaticInventory cfg t w)) = umask w"
  "unwritable (snd (installStaticInventory cfg t w)) = unwritable w"
  "capacity (snd (installStaticInventory cfg t w)) = capacity w"
  "logged (snd (installStaticInventory cfg t w)) = logged w @ [''installing static inventory'']"
  by (simp_all add: installStaticInventory_eq WriteFile_frame log_fields)

lemma installStaticInventory_success:
  "(fst (installStaticInventory cfg t w) = None) =
     (inventoryPath cfg t \<notin> unwritable w \<and>
      accepted w (inventoryPath cfg t) (Inventory (inventory t)) = length (Inventory (inventory t)))"
  using accepted_le [of w "inventoryPath cfg t" "Inventory (inventory t)"]
  by (auto simp: installStaticInventory_fst)

lemma installStaticInventory_content:
  "fst (installStaticInventory cfg t w) = None \<Longrightarrow>
   map_option content (files (snd (installStaticInventory cfg t w)) (inventoryPath cfg t)) =
     Some (Inventory (inventory t))"
  by (auto simp: installStaticInventory_success installStaticInventory_files split: option.splits)

lemma installStaticInventory_other:
  "q \<noteq> inventoryPath cfg t \<Longrightarrow> files (snd (installStaticInventory cfg t w)) q = files w q"
  by (simp add: installStaticInventory_files)

subsection \<open>Permission masks\<close>

lemma mask_066: "(octal [0,6,6,4] AND NOT u) AND octal [0,0,6,6] = octal [0,0,6,4] AND NOT u"
proof -
  have "(octal [0,6,6,4] AND NOT u) AND octal [0,0,6,6] =
        (octal [0,6,6,4] AND octal [0,0,6,6]) AND NOT u"
    by (simp add: ac_simps)
  also have "octal [0,6,6,4] AND octal [0,0,6,6] = octal [0,0,6,4]"
    by (simp add: octal_def)
  finally show ?thesis .
qed

lemma mask_111: "(octal [0,6,6,4] AND NOT u) AND octal [0,1,1,1] = 0"
proof -
  have "(octal [0,6,6,4] AND NOT u) AND octal [0,1,1,1] =
        (octal [0,6,6,4] AND octal [0,1,1,1]) AND NOT u"
    by (simp add: ac_simps)
  also have "octal [0,6,6,4] AND octal [0,1,1,1] = 0"
    by (simp add: octal_def)
  finally show ?thesis by simp
qed

subsection \<open>The concrete inputs\<close>

lemma Itoa_7: "Itoa 7 = ''7''"
  by code_simp

lemma examplePath:
  "inventoryPath exampleConfig (exampleTask 7 keyId kind text) = ''/tmp/inventory_7''"
  by (simp add: inventoryPath_def exampleConfig_def exampleTask_def Itoa_7)

lemma exampleKeyPath:
  "TmpPath exampleConfig @ ''/key_'' @ Itoa (ID (task (exampleTask 7 keyId kind text))) =
     ''/tmp/key_7''"
  by (simp add: exampleConfig_def exampleTask_def Itoa_7)

subsection \<open>Task status\<close>




section \<open>The claims\<close>

subsection \<open>C1: permission bits of the static inventory file\<close>

text \<open>
  C1, as stated, fails. Under the usual umask 022 a static inventory installed into an
  empty temp directory is created with mode 0644: the write succeeds and the file at
  the inventory path has group and other read bits, so the path is not restrictive.
\<close>

theorem static_inventory_not_restrictive:
  "fst (installStaticInventory exampleConfig (exampleTask 7 None ''static'' ''web1'')
          (exampleWorld Map.empty {})) = None \<and>
   \<not> restrictive
      (snd (installStaticInventory exampleConfig (exampleTask 7 None ''static'' ''web1'')
          (exampleWorld Map.empty {})))
      (inventoryPath exampleConfig (exampleTask 7 None ''static'' ''web1''))"
  by code_simp

text \<open>
  C1, as amended. When the static inventory file can be opened, \<open>installStaticInventory\<close>
  asks for permission bits 0664 (owner read and write, group read and write, other
  read): a file that already exists at the path keeps its mode, and a newly created
  file gets 0664 without the bits of the process umask. The new file is therefore free
  of group and other read and write bits exactly when the umask removes group read,
  group write and other read (064), and it never has an execute bit.
\<close>

theorem static_inventory_mode:
  "inventoryPath cfg t \<notin> unwritable w \<Longrightarrow>
   map_option mode (files (snd (installStaticInventory cfg t w)) (inventoryPath cfg t)) =
     Some (case files w (inventoryPath cfg t) of
             None \<Rightarrow> octal [0,6,6,4] AND NOT (umask w)
           | Some f \<Rightarrow> mode f)
   \<and> (files w (inventoryPath cfg t) = None \<longrightarrow>
        restrictive (snd (installStaticInventory cfg t w)) (inventoryPath cfg t) =
          (octal [0,0,6,4] AND NOT (umask w) = 0)
        \<and> \<not> executableAt (snd (installStaticInventory cfg t w)) (inventoryPath cfg t))"
  using mask_111 [of "umask w"]
  by (auto simp: installStaticInventory_files restrictive_def executableAt_def mask_066
       split: option.splits)

theorem static_inventory_mode_witness:
  "inventoryPath exampleConfig (exampleTask 7 None ''static'' ''web1'')
     \<notin> unwritable (exampleWorld Map.empty {}) \<and>
   files (exampleWorld Map.empty {})
     (inventoryPath exampleConfig (exampleTask 7 None ''static'' ''web1'')) = None \<and>
   map_option mode
     (files (snd (installStaticInventory exampleConfig (exampleTask 7 None ''static'' ''web1'')
        (exampleWorld Map.empty {}))) ''/tmp/inventory_7'') = Some (octal [0,6,4,4]) \<and>
   \<not> executableAt
     (snd (installStaticInventory exampleConfig (exampleTask 7 None ''static'' ''web1'')
        (exampleWorld Map.empty {}))) ''/tmp/inventory_7''"
proof -
  have free: "inventoryPath exampleConfig (exampleTask 7 None ''static'' ''web1'')
     \<notin> unwritable (exampleWorld Map.empty {})"
    by (simp add: exampleWorld_def)
  have fresh: "files (exampleWorld Map.empty {})
     (inventoryPath exampleConfig (exampleTask 7 None ''static'' ''web1'')) = None"
    by (simp add: exampleWorld_def)
  have m: "octal [0,6,6,4] AND NOT (umask (exampleWorld Map.empty {})) = octal [0,6,4,4]"
    by (simp add: octal_def exampleWorld_def)
  from static_inventory_mode [OF free] free fresh m show ?thesis
    by (simp add: examplePath)
qed

subsection \<open>C2: an inventory of an unrecognized kind\<close>

text \<open>
  C2, as stated, fails. An inventory of kind \<open>bogus\<close> that references no key is
  installed without any error: \<open>installInventory\<close> returns nil.
\<close>

theorem unrecognized_kind_succeeds:
  "fst (installInventory (exampleInstallKey exampleConfig) exampleConfig
          (exampleTask 7 None ''bogus'' ''web1'') (exampleWorld Map.empty {})) = None"
  by code_simp

text \<open>
  C2, as amended. The only kind \<open>installInventory\<close> recognizes is \<open>static\<close>. For every
  inventory of another kind it writes no inventory file and has no error of its own:
  when no key is referenced it returns nil and leaves the world as it was, and otherwise
  its result, the error and the world alike, is exactly the result of installing the
  referenced key.
\<close>

theorem other_kind_result:
  "Type (inventory t) \<noteq> ''static'' \<Longrightarrow>
   installInventory installKey cfg t w =
     (if SSHKeyID (inventory t) \<noteq> None then installKey t (SSHKey (inventory t)) w
      else (None, w))"
proof -
  assume kind: "Type (inventory t) \<noteq> ''static''"
  obtain e w' where r: "installKey t (SSHKey (inventory t)) w = (e, w')"
    by (cases "installKey t (SSHKey (inventory t)) w")
  from kind r show ?thesis
    by (cases e) (simp_all add: installInventory_def)
qed

theorem other_kind_result_witness:
  "Type (inventory (exampleTask 7 (Some 3) ''bogus'' ''web1'')) \<noteq> ''static'' \<and>
   fst (installInventory (exampleInstallKey exampleConfig) exampleConfig
          (exampleTask 7 (Some 3) ''bogus'' ''web1'') (exampleWorld Map.empty {})) = None \<and>
   files (snd (installInventory (exampleInstallKey exampleConfig) exampleConfig
          (exampleTask 7 (Some 3) ''bogus'' ''web1'') (exampleWorld Map.empty {})))
     ''/tmp/inventory_7'' = None \<and>
   Type (inventory (exampleTask 7 None ''bogus'' ''web1'')) \<noteq> ''static'' \<and>
   installInventory (exampleInstallKey exampleConfig) exampleConfig
          (exampleTask 7 None ''bogus'' ''web1'') (exampleWorld Map.empty {}) =
     (None, exampleWorld Map.empty {})"
proof -
  have kind: "Type (inventory (exampleTask 7 (Some 3) ''bogus'' ''web1'')) \<noteq> ''static''"
    by (simp add: exampleTask_def)
  have kind': "Type (inventory (exampleTask 7 None ''bogus'' ''web1'')) \<noteq> ''static''"
    by (simp add: exampleTask_def)
  have ref: "SSHKeyID (inventory (exampleTask 7 (Some 3) ''bogus'' ''web1'')) \<noteq> None"
    by (simp add: exampleTask_def)
  have noref: "SSHKeyID (inventory (exampleTask 7 None ''bogus'' ''web1'')) = None"
    by (simp add: exampleTask_def)
  have key: "fst (exampleInstallKey exampleConfig (exampleTask 7 (Some 3) ''bogus'' ''web1'')
       (SSHKey (inventory (exampleTask 7 (Some 3) ''bogus'' ''web1'')))
       (exampleWorld Map.empty {})) = None"
    by code_simp
  have inv: "files (snd (exampleInstallKey exampleConfig
       (exampleTask 7 (Some 3) ''bogus'' ''web1'')
       (SSHKey (inventory (exampleTask 7 (Some 3) ''bogus'' ''web1'')))
       (exampleWorld Map.empty {}))) ''/tmp/inventory_7'' = None"
    by code_simp
  from other_kind_result [OF kind, of "exampleInstallKey exampleConfig" exampleConfig
      "exampleWorld Map.empty {}"] ref
  have a: "installInventory (exampleInstallKey exampleConfig) exampleConfig
      (exampleTask 7 (Some 3) ''bogus'' ''web1'') (exampleWorld Map.empty {}) =
    exampleInstallKey exampleConfig (exampleTask 7 (Some 3) ''bogus'' ''web1'')
      (SSHKey (inventory (exampleTask 7 (Some 3) ''bogus'' ''web1'')))
      (exampleWorld Map.empty {})"
    by simp
  from other_kind_result [OF kind', of "exampleInstallKey exampleConfig" exampleConfig
      "exampleWorld Map.empty {}"] noref
  have b: "installInventory (exampleInstallKey exampleConfig) exampleConfig
      (exampleTask 7 None ''bogus'' ''web1'') (exampleWorld Map.empty {}) =
    (None, exampleWorld Map.empty {})"
    by simp
  from kind kind' key inv show ?thesis
    unfolding a b by simp
qed

subsection \<open>C3: the static inventory is written verbatim\<close>

text \<open>
  C3. \<open>installStaticInventory\<close> returns nil exactly when the file at the temp directory
  plus \<open>/inventory_\<close> plus the decimal task id can be opened for writing and accepts
  every byte of the inventory text; in that case the content of the file at that path
  is the inventory text, byte for byte; and whatever it returns, no file at another
  path is changed.
\<close>

theorem installStaticInventory_writes_verbatim:
  "(fst (installStaticInventory cfg t w) = None) =
     (TmpPath cfg @ ''/inventory_'' @ Itoa (ID (task t)) \<notin> unwritable w \<and>
      accepted w (TmpPath cfg @ ''/inventory_'' @ Itoa (ID (task t))) (Inventory (inventory t))
        = length (Inventory (inventory t)))
   \<and> (fst (installStaticInventory cfg t w) = None \<longrightarrow>
        map_option content
          (files (snd (installStaticInventory cfg t w))
             (TmpPath cfg @ ''/inventory_'' @ Itoa (ID (task t))))
        = Some (Inventory (inventory t)))
   \<and> (\<forall>q. q \<noteq> TmpPath cfg @ ''/inventory_'' @ Itoa (ID (task t)) \<longrightarrow>
        files (snd (installStaticInventory cfg t w)) q = files w q)"
  unfolding inventoryPath_def [symmetric]
  using installStaticInventory_success [of cfg t w] installStaticInventory_content [of cfg t w]
    installStaticInventory_other [of _ cfg t w]
  by blast

theorem installStaticInventory_writes_verbatim_witness:
  "fst (installStaticInventory exampleConfig (exampleTask 7 None ''static'' ''web1'')
          (exampleWorld Map.empty {})) = None \<and>
   map_option content
     (files (snd (installStaticInventory exampleConfig (exampleTask 7 None ''static'' ''web1'')
          (exampleWorld Map.empty {}))) ''/tmp/inventory_7'') = Some ''web1'' \<and>
   ''/tmp/key_7'' \<noteq> ''/tmp/inventory_7'' \<and>
   files (snd (installStaticInventory exampleConfig (exampleTask 7 None ''static'' ''web1'')
          (exampleWorld Map.empty {}))) ''/tmp/key_7'' = None"
proof -
  have ok: "fst (installStaticInventory exampleConfig (exampleTask 7 None ''static'' ''web1'')
          (exampleWorld Map.empty {})) = None"
    by code_simp
  have p: "TmpPath exampleConfig @ ''/inventory_'' @
      Itoa (ID (task (exampleTask 7 None ''static'' ''web1''))) = ''/tmp/inventory_7''"
    by (simp add: exampleConfig_def exampleTask_def Itoa_7)
  have i: "Inventory (inventory (exampleTask 7 None ''static'' ''web1'')) = ''web1''"
    by (simp add: exampleTask_def)
  have e: "files (exampleWorld Map.empty {}) ''/tmp/key_7'' = None"
    by (simp add: exampleWorld_def)
  from installStaticInventory_writes_verbatim
    [of exampleConfig "exampleTask 7 None ''static'' ''web1''" "exampleWorld Map.empty {}"]
  show ?thesis
    unfolding p i using ok e by simp
qed


subsection \<open>C4: a failed key installation short-circuits\<close>

text \<open>
  C4. If the inventory references an SSH key and installing that key fails with an
  error, \<open>installInventory\<close> returns that error and the world is exactly the one the key
  installation left: the static inventory is not installed, so nothing is written at
  the inventory path and nothing is logged for it.
\<close>

theorem key_failure_short_circuits:
  "SSHKeyID (inventory t) \<noteq> None \<Longrightarrow>
   installKey t (SSHKey (inventory t)) w = (Some err, w') \<Longrightarrow>
   installInventory installKey cfg t w = (Some err, w')"
  by (simp add: installInventory_def)

theorem key_failure_short_circuits_witness:
  "SSHKeyID (inventory (exampleTask 7 (Some 3) ''static'' ''web1'')) \<noteq> None \<and>
   installInventory (exampleInstallKey exampleConfig) exampleConfig
     (exampleTask 7 (Some 3) ''static'' ''web1'') (exampleWorld Map.empty {''/tmp/key_7''}) =
     (Some (PathError ''open'' ''/tmp/key_7''), exampleWorld Map.empty {''/tmp/key_7''}) \<and>
   files (exampleWorld Map.empty {''/tmp/key_7''}) ''/tmp/inventory_7'' = None"
proof -
  have ref: "SSHKeyID (inventory (exampleTask 7 (Some 3) ''static'' ''web1'')) \<noteq> None"
    by (simp add: exampleTask_def)
  have fails: "exampleInstallKey exampleConfig (exampleTask 7 (Some 3) ''static'' ''web1'')
      (SSHKey (inventory (exampleTask 7 (Some 3) ''static'' ''web1'')))
      (exampleWorld Map.empty {''/tmp/key_7''}) =
      (Some (PathError ''open'' ''/tmp/key_7''), exampleWorld Map.empty {''/tmp/key_7''})"
    unfolding exampleInstallKey_def exampleKeyPath
    by (rule WriteFile_unwritable) (simp add: exampleWorld_def)
  from key_failure_short_circuits
    [where installKey = "exampleInstallKey exampleConfig" and cfg = exampleConfig, OF ref fails] ref
  show ?thesis by (simp add: exampleWorld_def)
qed

subsection \<open>C5: a dynamic inventory\<close>

text \<open>
  C5, as stated, fails. Installing an inventory of kind \<open>dynamic\<close> whose script is on
  disk with mode 0644 returns nil and leaves the script without any execute bit; no
  file appears at the inventory path of the task either.
\<close>

theorem dynamic_inventory_not_marked_executable:
  "fst (installInventory (exampleInstallKey exampleConfig) exampleConfig
         (exampleTask 7 None ''dynamic'' ''/opt/inventory/ec2.py'')
         (exampleWorld [''/opt/inventory/ec2.py'' \<mapsto>
            \<lparr>content = ''#!/usr/bin/env python'', mode = octal [0,6,4,4]\<rparr>] {})) = None \<and>
   \<not> executableAt
      (snd (installInventory (exampleInstallKey exampleConfig) exampleConfig
         (exampleTask 7 None ''dynamic'' ''/opt/inventory/ec2.py'')
         (exampleWorld [''/opt/inventory/ec2.py'' \<mapsto>
            \<lparr>content = ''#!/usr/bin/env python'', mode = octal [0,6,4,4]\<rparr>] {})))
      ''/opt/inventory/ec2.py'' \<and>
   \<not> executableAt
      (snd (installInventory (exampleInstallKey exampleConfig) exampleConfig
         (exampleTask 7 None ''dynamic'' ''/opt/inventory/ec2.py'')
         (exampleWorld [''/opt/inventory/ec2.py'' \<mapsto>
            \<lparr>content = ''#!/usr/bin/env python'', mode = octal [0,6,4,4]\<rparr>] {})))
      ''/tmp/inventory_7''"
  by code_simp

text \<open>
  C5, as amended. For every inventory whose kind is not \<open>static\<close>, a dynamic one
  included, \<open>installInventory\<close> writes no inventory content and changes no file mode:
  the world it leaves is the one it was given when no key is referenced, and otherwise
  the one the installation of the referenced key left.
\<close>

theorem other_kind_world_untouched:
  "Type (inventory t) \<noteq> ''static'' \<Longrightarrow>
   snd (installInventory installKey cfg t w) =
     (if SSHKeyID (inventory t) \<noteq> None then snd (installKey t (SSHKey (inventory t)) w)
      else w)"
  by (simp add: installInventory_def split: prod.splits option.splits)

theorem other_kind_world_untouched_witness:
  "Type (inventory (exampleTask 7 None ''dynamic'' ''/opt/inventory/ec2.py'')) \<noteq> ''static'' \<and>
   snd (installInventory (exampleInstallKey exampleConfig) exampleConfig
         (exampleTask 7 None ''dynamic'' ''/opt/inventory/ec2.py'')
         (exampleWorld [''/opt/inventory/ec2.py'' \<mapsto>
            \<lparr>content = ''#!/usr/bin/env python'', mode = octal [0,6,4,4]\<rparr>] {})) =
     exampleWorld [''/opt/inventory/ec2.py'' \<mapsto>
            \<lparr>content = ''#!/usr/bin/env python'', mode = octal [0,6,4,4]\<rparr>] {}"
proof -
  have kind:
    "Type (inventory (exampleTask 7 None ''dynamic'' ''/opt/inventory/ec2.py'')) \<noteq> ''static''"
    by (simp add: exampleTask_def)
  from other_kind_world_untouched [OF kind, of "exampleInstallKey exampleConfig" exampleConfig]
    kind
  show ?thesis by (simp add: exampleTask_def)
qed

subsection \<open>C6: distinct tasks, distinct inventory paths\<close>



subsection \<open>C7: the status of a task\<close>



subsection \<open>C8: no key reference, no key installation\<close>

text \<open>
  C8. When the inventory references no SSH key, \<open>installInventory\<close> does not install a
  key: its result is that of \<open>installStaticInventory\<close> for a static inventory and the
  unchanged world with nil otherwise, the same whatever the key installer is; and no
  file at a path other than the inventory path of the task is changed.
\<close>

theorem no_key_reference_no_key_installation:
  "SSHKeyID (inventory t) = None \<Longrightarrow>
   installInventory installKey cfg t w =
     (if Type (inventory t) = ''static'' then installStaticInventory cfg t w else (None, w))
   \<and> installInventory installKey' cfg t w = installInventory installKey cfg t w
   \<and> (\<forall>q. q \<noteq> inventoryPath cfg t \<longrightarrow>
         files (snd (installInventory installKey cfg t w)) q = files w q)"
  by (simp add: installInventory_def installStaticInventory_files)

theorem no_key_reference_no_key_installation_witness:
  "SSHKeyID (inventory (exampleTask 7 None ''static'' ''web1'')) = None \<and>
   files (snd (installInventory (exampleInstallKey exampleConfig) exampleConfig
      (exampleTask 7 None ''static'' ''web1'') (exampleWorld Map.empty {}))) ''/tmp/key_7'' = None \<and>
   map_option content (files (snd (installInventory (exampleInstallKey exampleConfig) exampleConfig
      (exampleTask 7 None ''static'' ''web1'') (exampleWorld Map.empty {}))) ''/tmp/inventory_7'')
     = Some ''web1''"
proof -
  have nokey: "SSHKeyID (inventory (exampleTask 7 None ''static'' ''web1'')) = None"
    by (simp add: exampleTask_def)
  have kind: "Type (inventory (exampleTask 7 None ''static'' ''web1'')) = ''static''"
    by (simp add: exampleTask_def)
  have key: "files (snd (installStaticInventory exampleConfig
      (exampleTask 7 None ''static'' ''web1'') (exampleWorld Map.empty {}))) ''/tmp/key_7'' = None"
    by code_simp
  have inv: "map_option content (files (snd (installStaticInventory exampleConfig
      (exampleTask 7 None ''static'' ''web1'') (exampleWorld Map.empty {}))) ''/tmp/inventory_7'')
     = Some ''web1''"
    by code_simp
  from no_key_reference_no_key_installation
    [where installKey = "exampleInstallKey exampleConfig"
       and installKey' = "exampleInstallKey exampleConfig" and cfg = exampleConfig
       and w = "exampleWorld Map.empty {}", OF nokey]
  have "installInventory (exampleInstallKey exampleConfig) exampleConfig
      (exampleTask 7 None ''static'' ''web1'') (exampleWorld Map.empty {}) =
    installStaticInventory exampleConfig (exampleTask 7 None ''static'' ''web1'')
      (exampleWorld Map.empty {})"
    by (simp add: kind)
  with nokey key inv show ?thesis by simp
qed

subsection \<open>C9: the static installation depends on three inputs only\<close>

text \<open>
  C9. The path and the bytes \<open>installStaticInventory\<close> writes depend only on the temp
  directory, the task id and the inventory text. For two configurations and two tasks
  that agree on these three, whatever else differs: the inventory paths are equal; from
  the same world the two installations return the same error and leave the same world;
  and from any two worlds in which both succeed, the file at the inventory path has the
  same content in both.
\<close>

theorem installStaticInventory_deterministic:
  "TmpPath c1 = TmpPath c2 \<Longrightarrow> ID (task t1) = ID (task t2) \<Longrightarrow>
   Inventory (inventory t1) = Inventory (inventory t2) \<Longrightarrow>
   inventoryPath c1 t1 = inventoryPath c2 t2
   \<and> installStaticInventory c1 t1 w = installStaticInventory c2 t2 w
   \<and> (fst (installStaticInventory c1 t1 w1) = None \<and> fst (installStaticInventory c2 t2 w2) = None
        \<longrightarrow> map_option content (files (snd (installStaticInventory c1 t1 w1)) (inventoryPath c1 t1)) =
            map_option content (files (snd (installStaticInventory c2 t2 w2)) (inventoryPath c2 t2)))"
proof -
  assume eqs: "TmpPath c1 = TmpPath c2" "ID (task t1) = ID (task t2)"
    "Inventory (inventory t1) = Inventory (inventory t2)"
  then have p: "inventoryPath c1 t1 = inventoryPath c2 t2"
    by (simp add: inventoryPath_def)
  from eqs have same: "installStaticInventory c1 t1 w = installStaticInventory c2 t2 w"
    by (simp add: installStaticInventory_def)
  show ?thesis
  proof (intro conjI impI)
    show "inventoryPath c1 t1 = inventoryPath c2 t2" by (rule p)
    show "installStaticInventory c1 t1 w = installStaticInventory c2 t2 w" by (rule same)
    assume "fst (installStaticInventory c1 t1 w1) = None \<and>
      fst (installStaticInventory c2 t2 w2) = None"
    then show "map_option content
        (files (snd (installStaticInventory c1 t1 w1)) (inventoryPath c1 t1)) =
      map_option content
        (files (snd (installStaticInventory c2 t2 w2)) (inventoryPath c2 t2))"
      using installStaticInventory_content [of c1 t1 w1]
        installStaticInventory_content [of c2 t2 w2] eqs(3)
      by auto
  qed
qed

theorem installStaticInventory_deterministic_witness:
  "TmpPath exampleConfig = TmpPath exampleConfig \<and>
   ID (task (exampleTask 7 None ''static'' ''web1'')) =
     ID (task (exampleTask 7 (Some 3) ''other'' ''web1'')) \<and>
   Inventory (inventory (exampleTask 7 None ''static'' ''web1'')) =
     Inventory (inventory (exampleTask 7 (Some 3) ''other'' ''web1'')) \<and>
   installStaticInventory exampleConfig (exampleTask 7 None ''static'' ''web1'')
       (exampleWorld Map.empty {}) =
     installStaticInventory exampleConfig (exampleTask 7 (Some 3) ''other'' ''web1'')
       (exampleWorld Map.empty {}) \<and>
   fst (installStaticInventory exampleConfig (exampleTask 7 None ''static'' ''web1'')
       (exampleWorld Map.empty {})) = None \<and>
   fst (installStaticInventory exampleConfig (exampleTask 7 (Some 3) ''other'' ''web1'')
       (exampleWorld [''/tmp/inventory_7'' \<mapsto>
             \<lparr>content = ''stale inventory'', mode = octal [0,6,0,0]\<rparr>] {})) = None \<and>
   map_option content (files (snd (installStaticInventory exampleConfig
       (exampleTask 7 None ''static'' ''web1'') (exampleWorld Map.empty {})))
       (inventoryPath exampleConfig (exampleTask 7 None ''static'' ''web1''))) =
   map_option content (files (snd (installStaticInventory exampleConfig
       (exampleTask 7 (Some 3) ''other'' ''web1'')
       (exampleWorld [''/tmp/inventory_7'' \<mapsto>
             \<lparr>content = ''stale inventory'', mode = octal [0,6,0,0]\<rparr>] {})))
       (inventoryPath exampleConfig (exampleTask 7 (Some 3) ''other'' ''web1'')))"
proof -
  have ok1: "fst (installStaticInventory exampleConfig (exampleTask 7 None ''static'' ''web1'')
       (exampleWorld Map.empty {})) = None"
    by code_simp
  have ok2: "fst (installStaticInventory exampleConfig (exampleTask 7 (Some 3) ''other'' ''web1'')
       (exampleWorld [''/tmp/inventory_7'' \<mapsto>
             \<lparr>content = ''stale inventory'', mode = octal [0,6,0,0]\<rparr>] {})) = None"
    by code_simp
  have e1: "TmpPath exampleConfig = TmpPath exampleConfig"
    by (rule refl)
  have e2: "ID (task (exampleTask 7 None ''static'' ''web1'')) =
     ID (task (exampleTask 7 (Some 3) ''other'' ''web1''))"
    by (simp add: exampleTask_def)
  have e3: "Inventory (inventory (exampleTask 7 None ''static'' ''web1'')) =
     Inventory (inventory (exampleTask 7 (Some 3) ''other'' ''web1''))"
    by (simp add: exampleTask_def)
  from installStaticInventory_deterministic
    [where w = "exampleWorld Map.empty {}" and ?w1.0 = "exampleWorld Map.empty {}"
       and ?w2.0 = "exampleWorld [''/tmp/inventory_7'' \<mapsto>
             \<lparr>content = ''stale inventory'', mode = octal [0,6,0,0]\<rparr>] {}", OF e1 e2 e3]
    ok1 ok2 e1 e2 e3
  show ?thesis by blast
qed

subsection \<open>C10: installing the static inventory twice\<close>

text \<open>
  C10. Installing the static inventory of a task a second time leaves the filesystem as
  the first installation left it: the same file table, umask, unwritable paths and
  capacities, and the same returned error (only the log of the task grows by a line).
  The write truncates and replaces the file at the inventory path; it does not append
  to it and does not fail because it exists.
\<close>

theorem installStaticInventory_idempotent:
  "files (snd (installStaticInventory cfg t (snd (installStaticInventory cfg t w)))) =
     files (snd (installStaticInventory cfg t w))
   \<and> umask (snd (installStaticInventory cfg t (snd (installStaticInventory cfg t w)))) =
     umask (snd (installStaticInventory cfg t w))
   \<and> unwritable (snd (installStaticInventory cfg t (snd (installStaticInventory cfg t w)))) =
     unwritable (snd (installStaticInventory cfg t w))
   \<and> capacity (snd (installStaticInventory cfg t (snd (installStaticInventory cfg t w)))) =
     capacity (snd (installStaticInventory cfg t w))
   \<and> fst (installStaticInventory cfg t (snd (installStaticInventory cfg t w))) =
     fst (installStaticInventory cfg t w)"
proof -
  let ?w' = "snd (installStaticInventory cfg t w)"
  have acc: "accepted ?w' p d = accepted w p d" for p d
    by (simp add: accepted_def installStaticInventory_frame)
  have "files (snd (installStaticInventory cfg t ?w')) = files ?w'"
    by (simp add: installStaticInventory_files [of cfg t ?w'] installStaticInventory_frame acc)
       (simp add: installStaticInventory_files acc split: option.splits)
  moreover have "fst (installStaticInventory cfg t ?w') = fst (installStaticInventory cfg t w)"
    by (simp add: installStaticInventory_fst installStaticInventory_frame acc)
  ultimately show ?thesis
    by (simp add: installStaticInventory_frame)
qed

theorem installStaticInventory_idempotent_witness:
  "map_option content
     (files (snd (installStaticInventory exampleConfig (exampleTask 7 None ''static'' ''web1'')
        (snd (installStaticInventory exampleConfig (exampleTask 7 None ''static'' ''web1'')
          (exampleWorld [''/tmp/inventory_7'' \<mapsto>
             \<lparr>content = ''stale inventory'', mode = octal [0,6,0,0]\<rparr>] {})))))
       ''/tmp/inventory_7'') = Some ''web1''"
proof -
  have once: "map_option content
     (files (snd (installStaticInventory exampleConfig (exampleTask 7 None ''static'' ''web1'')
          (exampleWorld [''/tmp/inventory_7'' \<mapsto>
             \<lparr>content = ''stale inventory'', mode = octal [0,6,0,0]\<rparr>] {})))
       ''/tmp/inventory_7'') = Some ''web1''"
    by code_simp
  from installStaticInventory_idempotent [of exampleConfig "exampleTask 7 None ''static'' ''web1''"
     "exampleWorld [''/tmp/inventory_7'' \<mapsto>
             \<lparr>content = ''stale inventory'', mode = octal [0,6,0,0]\<rparr>] {}"] once
  show ?thesis by simp
qed

end
